theory Spec2Isabelle
  imports Complex_Main
begin

section \<open>Python values\<close>

text \<open>
  The program is dynamically typed: a field of a \<open>Vacancy\<close> may hold any value, and
  \<open>validate\<close> inspects its type at run time. The values modelled are those that
  \<open>json.dump\<close> can write and \<open>json.load\<close> can return: \<open>None\<close>, booleans, integers,
  floats, strings, lists, and dicts with string keys.

  A float is \<open>nan\<close>, an infinity, or a finite number; a finite float is represented by
  the rational number it denotes (Python compares an \<open>int\<close> with a \<open>float\<close> by their
  exact mathematical values, and no arithmetic is performed by the program). A dict is
  the list of its items in insertion order; a key is looked up with \<open>map_of\<close>.
\<close>

datatype pyfloat = FNaN | FNegInf | FNum rat | FPosInf

datatype pyval =
    PNone
  | PBool bool
  | PInt int
  | PFloat pyfloat
  | PStr string
  | PList "pyval list"
  | PDict "(string \<times> pyval) list"

datatype pytype = NoneType | TBool | TInt | TFloat | TStr | TList | TDict

datatype error =
    ValueError string
  | KeyError string
  | TypeError
  | FileNotFoundError
  | PermissionError
  | JSONDecodeError
  | ConnectionError
  | Exception_getting_vacancies int

text \<open>\<open>type(x)\<close>.\<close>

fun py_type :: "pyval \<Rightarrow> pytype" where
  "py_type PNone = NoneType"
| "py_type (PBool b) = TBool"
| "py_type (PInt i) = TInt"
| "py_type (PFloat f) = TFloat"
| "py_type (PStr s) = TStr"
| "py_type (PList xs) = TList"
| "py_type (PDict d) = TDict"

text \<open>\<open>isinstance(x, str)\<close>: \<open>str\<close> has no subclass among the values modelled.\<close>

definition isinstance_str :: "pyval \<Rightarrow> bool" where
  "isinstance_str x = (py_type x = TStr)"

text \<open>Truth value of an object, as \<open>or\<close> tests it.\<close>

fun py_truthy :: "pyval \<Rightarrow> bool" where
  "py_truthy PNone = False"
| "py_truthy (PBool b) = b"
| "py_truthy (PInt i) = (i \<noteq> 0)"
| "py_truthy (PFloat f) = (f \<noteq> FNum 0)"
| "py_truthy (PStr s) = (s \<noteq> [])"
| "py_truthy (PList xs) = (xs \<noteq> [])"
| "py_truthy (PDict d) = (d \<noteq> [])"

text \<open>\<open>a or b\<close>: the left operand when it is true, else the right one.\<close>

definition py_or :: "pyval \<Rightarrow> pyval \<Rightarrow> pyval" where
  "py_or a b = (if py_truthy a then a else b)"

text \<open>Numbers: \<open>bool\<close> is a subclass of \<open>int\<close>, with \<open>True == 1\<close> and \<open>False == 0\<close>.\<close>

fun as_number :: "pyval \<Rightarrow> pyfloat option" where
  "as_number (PBool b) = Some (FNum (if b then 1 else 0))"
| "as_number (PInt i) = Some (FNum (of_int i))"
| "as_number (PFloat f) = Some f"
| "as_number _ = None"

fun float_eq :: "pyfloat \<Rightarrow> pyfloat \<Rightarrow> bool" where
  "float_eq (FNum a) (FNum b) = (a = b)"
| "float_eq FNegInf FNegInf = True"
| "float_eq FPosInf FPosInf = True"
| "float_eq _ _ = False"

fun float_lt :: "pyfloat \<Rightarrow> pyfloat \<Rightarrow> bool" where
  "float_lt (FNum a) (FNum b) = (a < b)"
| "float_lt FNegInf (FNum b) = True"
| "float_lt FNegInf FPosInf = True"
| "float_lt (FNum a) FPosInf = True"
| "float_lt _ _ = False"

text \<open>
  \<open>a == b\<close> on the values above. Numbers compare by value across \<open>bool\<close>, \<open>int\<close> and
  \<open>float\<close>, and \<open>nan\<close> equals nothing; lists compare element by element; dicts compare
  as mappings, whatever the order of their items; values of unrelated types are unequal.
  The values compared by the program come from separate calls (one of them from
  \<open>json.load\<close>), so no two of them are the same object.
\<close>

fun py_eq :: "pyval \<Rightarrow> pyval \<Rightarrow> bool" where
  "py_eq PNone PNone = True"
| "py_eq (PStr s) (PStr t) = (s = t)"
| "py_eq (PList xs) (PList ys) = list_all2 py_eq xs ys"
| "py_eq (PDict a) (PDict b) =
     ((\<forall>(k, x) \<in> set a. case map_of b k of Some y \<Rightarrow> py_eq x y | None \<Rightarrow> False) \<and>
      (\<forall>k \<in> set (map fst b). k \<in> set (map fst a)))"
| "py_eq a b =
     (case (as_number a, as_number b) of
        (Some x, Some y) \<Rightarrow> float_eq x y
      | _ \<Rightarrow> False)"

text \<open>\<open>a != b\<close>: for these types the negation of \<open>==\<close>.\<close>

definition py_ne :: "pyval \<Rightarrow> pyval \<Rightarrow> bool" where
  "py_ne a b = (\<not> py_eq a b)"

text \<open>Strings are ordered lexicographically by code point.\<close>

fun str_lt :: "string \<Rightarrow> string \<Rightarrow> bool" where
  "str_lt [] [] = False"
| "str_lt [] (d # t) = True"
| "str_lt (c # s) [] = False"
| "str_lt (c # s) (d # t) =
     (if c = d then str_lt s t else (of_char c :: nat) < of_char d)"

text \<open>
  \<open>a < b\<close>: defined between numbers, between strings and between lists (decided by the
  first pair of unequal elements, else by length); a \<open>TypeError\<close> otherwise.
\<close>

fun py_lt :: "pyval \<Rightarrow> pyval \<Rightarrow> error + bool"
  and list_lt :: "pyval list \<Rightarrow> pyval list \<Rightarrow> error + bool" where
  "py_lt (PStr s) (PStr t) = Inr (str_lt s t)"
| "py_lt (PList xs) (PList ys) = list_lt xs ys"
| "py_lt a b =
     (case (as_number a, as_number b) of
        (Some x, Some y) \<Rightarrow> Inr (float_lt x y)
      | _ \<Rightarrow> Inl TypeError)"
| "list_lt [] [] = Inr False"
| "list_lt [] (y # ys) = Inr True"
| "list_lt (x # xs) [] = Inr False"
| "list_lt (x # xs) (y # ys) = (if py_eq x y then list_lt xs ys else py_lt x y)"

text \<open>\<open>a > b\<close>: for these types the same comparison with the operands exchanged.\<close>

definition py_gt :: "pyval \<Rightarrow> pyval \<Rightarrow> error + bool" where
  "py_gt a b = py_lt b a"

text \<open>\<open>v[key]\<close> with a string key: only a dict can be indexed by a string.\<close>

fun py_getitem :: "pyval \<Rightarrow> string \<Rightarrow> error + pyval" where
  "py_getitem (PDict d) key =
     (case map_of d key of None \<Rightarrow> Inl (KeyError key) | Some x \<Rightarrow> Inr x)"
| "py_getitem v key = Inl TypeError"

text \<open>
  The elements a \<open>for\<close> clause draws from a value: the elements of a list, the keys of
  a dict, the characters of a string; other values are not iterable.
\<close>

fun py_iter :: "pyval \<Rightarrow> error + pyval list" where
  "py_iter (PList xs) = Inr xs"
| "py_iter (PDict d) = Inr (map (\<lambda>kv. PStr (fst kv)) d)"
| "py_iter (PStr s) = Inr (map (\<lambda>c. PStr [c]) s)"
| "py_iter v = Inl TypeError"


section \<open>The vacancy\<close>

record Vacancy =
  title :: pyval
  url :: pyval
  salary :: pyval
  description :: pyval

text \<open>\<open>Vacancy.__init__\<close>.\<close>

definition Vacancy_init :: "pyval \<Rightarrow> pyval \<Rightarrow> pyval \<Rightarrow> pyval \<Rightarrow> Vacancy" where
  "Vacancy_init title' url' salary' description' =
     \<lparr>title = title', url = url', salary = py_or salary' (PInt 0),
      description = description'\<rparr>"

text \<open>\<open>Vacancy.__eq__\<close>, \<open>__lt__\<close> and \<open>__gt__\<close>.\<close>

definition Vacancy_eq :: "Vacancy \<Rightarrow> Vacancy \<Rightarrow> bool" where
  "Vacancy_eq self other = py_eq (salary self) (salary other)"

definition Vacancy_lt :: "Vacancy \<Rightarrow> Vacancy \<Rightarrow> error + bool" where
  "Vacancy_lt self other = py_lt (salary self) (salary other)"

definition Vacancy_gt :: "Vacancy \<Rightarrow> Vacancy \<Rightarrow> error + bool" where
  "Vacancy_gt self other = py_gt (salary self) (salary other)"

text \<open>\<open>Vacancy.validate\<close>: the checks in the order of the source, the first failing one raises.\<close>

definition validate :: "Vacancy \<Rightarrow> error + unit" where
  "validate self =
     (if py_type (salary self) \<notin> set [TInt, TFloat] then
        Inl (ValueError ''Salary must be a number'')
      else if \<not> isinstance_str (title self) then
        Inl (ValueError ''Title must be a string'')
      else if \<not> isinstance_str (url self) then
        Inl (ValueError ''URL must be a string'')
      else if \<not> isinstance_str (description self) then
        Inl (ValueError ''Description must be a string'')
      else Inr ())"

text \<open>A number in the sense of \<open>validate\<close>: an \<open>int\<close> or a \<open>float\<close>, not a \<open>bool\<close>.\<close>

definition is_number :: "pyval \<Rightarrow> bool" where
  "is_number x = (py_type x = TInt \<or> py_type x = TFloat)"

text \<open>A number that is greater than or equal to zero.\<close>

definition nonneg_number :: "pyval \<Rightarrow> bool" where
  "nonneg_number x = (is_number x \<and> (py_eq x (PInt 0) \<or> py_lt (PInt 0) x = Inr True))"

text \<open>
  \<open>v.__dict__\<close> of a vacancy: its four attributes, in the order \<open>__init__\<close> assigns them.
\<close>

definition Vacancy_dict :: "Vacancy \<Rightarrow> pyval" where
  "Vacancy_dict v =
     PDict [(''title'', title v), (''url'', url v), (''salary'', salary v),
            (''description'', description v)]"

text \<open>
  \<open>Vacancy(**v)\<close>: \<open>v\<close> must be a mapping that gives every parameter of \<open>__init__\<close> and
  nothing else; a missing or an unexpected keyword argument is a \<open>TypeError\<close>.
\<close>

definition Vacancy_kwargs :: "pyval \<Rightarrow> error + Vacancy" where
  "Vacancy_kwargs v =
     (case v of
        PDict d \<Rightarrow>
          (case (map_of d ''title'', map_of d ''url'', map_of d ''salary'',
                 map_of d ''description'') of
             (Some t, Some u, Some s, Some de) \<Rightarrow>
               if \<forall>k \<in> set (map fst d).
                    k \<in> set [''title'', ''url'', ''salary'', ''description'']
               then Inr (Vacancy_init t u s de)
               else Inl TypeError
           | _ \<Rightarrow> Inl TypeError)
      | _ \<Rightarrow> Inl TypeError)"


section \<open>The remote source\<close>

text \<open>
  A document as text: either the text of a JSON value, or text that is not JSON.
  \<open>json.dump\<close> followed by \<open>json.load\<close> returns the value written; this property of
  the standard library is taken as given.
\<close>

datatype document = Json pyval | Malformed

definition json_load :: "document \<Rightarrow> error + pyval" where
  "json_load doc = (case doc of Json v \<Rightarrow> Inr v | Malformed \<Rightarrow> Inl JSONDecodeError)"

record Response =
  status_code :: int
  body :: document

definition API_URL :: string where
  "API_URL = ''https://api.hh.ru/vacancies''"

text \<open>
  \<open>HhVacancyAPI.get_vacancies\<close>. The call \<open>requests.get\<close> is a parameter: it takes the
  URL, the headers and the query parameters, and gives a response or raises.
\<close>

definition HhVacancyAPI_get_vacancies ::
  "(string \<Rightarrow> (string \<times> string) list \<Rightarrow> (string \<times> pyval) list \<Rightarrow> error + Response)
   \<Rightarrow> string \<Rightarrow> string \<Rightarrow> int \<Rightarrow> error + pyval" where
  "HhVacancyAPI_get_vacancies requests_get api_key search_query page =
     (let headers = [(''Authorization'', ''Bearer '' @ api_key)];
          params = [(''text'', PStr search_query), (''page'', PInt page)]
      in case requests_get API_URL headers params of
           Inl e \<Rightarrow> Inl e
         | Inr response \<Rightarrow>
             if status_code response = 200 then
               (case json_load (body response) of
                  Inl e \<Rightarrow> Inl e
                | Inr j \<Rightarrow> py_getitem j ''items'')
             else Inl (Exception_getting_vacancies (status_code response)))"


section \<open>The storage\<close>

text \<open>
  The backing medium is the file named by \<open>file_name\<close>: its content (\<open>None\<close> when there
  is no such file), whether it may be opened for reading, and whether it may be opened
  for writing (which creates it when it is missing).
\<close>

record medium =
  content :: "document option"
  readable :: bool
  writable :: bool

text \<open>\<open>with open(file_name, "r") as f: json.load(f)\<close>.\<close>

definition read_json :: "medium \<Rightarrow> error + pyval" where
  "read_json m =
     (case content m of
        None \<Rightarrow> Inl FileNotFoundError
      | Some doc \<Rightarrow> if readable m then json_load doc else Inl PermissionError)"

text \<open>\<open>with open(file_name, "w") as f: json.dump(x, f)\<close>: the new text replaces the old.\<close>

definition write_json :: "pyval \<Rightarrow> medium \<Rightarrow> error + medium" where
  "write_json x m =
     (if writable m then Inr (m\<lparr>content := Some (Json x)\<rparr>) else Inl PermissionError)"

text \<open>
  The operations of \<open>JsonVacancyStorage\<close>. Each one returns the medium it leaves, or the
  exception it raises; every exception is raised before anything is written, so the
  medium is then as it was.
\<close>

definition add_vacancies :: "Vacancy list \<Rightarrow> medium \<Rightarrow> error + medium" where
  "add_vacancies vacancies m = write_json (PList (map Vacancy_dict vacancies)) m"

text \<open>\<open>[Vacancy(**v) for v in vacancies if v[key] == value]\<close>.\<close>

fun get_loop :: "string \<Rightarrow> pyval \<Rightarrow> pyval list \<Rightarrow> error + Vacancy list" where
  "get_loop key value [] = Inr []"
| "get_loop key value (v # vs) =
     (case py_getitem v key of
        Inl e \<Rightarrow> Inl e
      | Inr x \<Rightarrow>
          if py_eq x value then
            (case Vacancy_kwargs v of
               Inl e \<Rightarrow> Inl e
             | Inr vac \<Rightarrow>
                 (case get_loop key value vs of
                    Inl e \<Rightarrow> Inl e
                  | Inr rest \<Rightarrow> Inr (vac # rest)))
          else get_loop key value vs)"

definition get_vacancies :: "string \<Rightarrow> pyval \<Rightarrow> medium \<Rightarrow> error + Vacancy list" where
  "get_vacancies key value m =
     (case read_json m of
        Inl e \<Rightarrow> Inl e
      | Inr vacancies \<Rightarrow>
          (case py_iter vacancies of
             Inl e \<Rightarrow> Inl e
           | Inr vs \<Rightarrow> get_loop key value vs))"

text \<open>\<open>[v for v in vacancies if v[key] != value]\<close>.\<close>

fun delete_loop :: "string \<Rightarrow> pyval \<Rightarrow> pyval list \<Rightarrow> error + pyval list" where
  "delete_loop key value [] = Inr []"
| "delete_loop key value (v # vs) =
     (case py_getitem v key of
        Inl e \<Rightarrow> Inl e
      | Inr x \<Rightarrow>
          (case delete_loop key value vs of
             Inl e \<Rightarrow> Inl e
           | Inr rest \<Rightarrow> Inr (if py_ne x value then v # rest else rest)))"

definition delete_vacancies :: "string \<Rightarrow> pyval \<Rightarrow> medium \<Rightarrow> error + medium" where
  "delete_vacancies key value m =
     (case read_json m of
        Inl e \<Rightarrow> Inl e
      | Inr vacancies \<Rightarrow>
          (case py_iter vacancies of
             Inl e \<Rightarrow> Inl e
           | Inr vs \<Rightarrow>
               (case delete_loop key value vs of
                  Inl e \<Rightarrow> Inl e
                | Inr kept \<Rightarrow> write_json (PList kept) m)))"

text \<open>The field names of a stored record, and the value a vacancy stores under one.\<close>

definition field_names :: "string list" where
  "field_names = [''title'', ''url'', ''salary'', ''description'']"

definition field :: "string \<Rightarrow> Vacancy \<Rightarrow> pyval" where
  "field k v =
     (if k = ''title'' then title v
      else if k = ''url'' then url v
      else if k = ''salary'' then salary v
      else description v)"

text \<open>
  What every constructed vacancy satisfies: its salary is a true value or the integer 0.
\<close>

definition constructed :: "Vacancy \<Rightarrow> bool" where
  "constructed v = (py_truthy (salary v) \<or> salary v = PInt 0)"

text \<open>Whether a stored record has the value \<open>x\<close> under the key \<open>k\<close>.\<close>

definition matches :: "string \<Rightarrow> pyval \<Rightarrow> (string \<times> pyval) list \<Rightarrow> bool" where
  "matches k x d = (case map_of d k of Some y \<Rightarrow> py_eq y x | None \<Rightarrow> False)"

text \<open>A remote source that answers every request with the response \<open>r\<close>.\<close>

definition remote_answering ::
  "Response \<Rightarrow> string \<Rightarrow> (string \<times> string) list \<Rightarrow> (string \<times> pyval) list
   \<Rightarrow> error + Response" where
  "remote_answering r address headers params = Inr r"


section \<open>Properties of the vacancy\<close>

lemma salary_init_int: "salary (Vacancy_init t u (PInt i) d) = PInt i"
  by (simp add: Vacancy_init_def py_or_def)

lemma constructed_init: "constructed (Vacancy_init t u s d)"
  by (cases s) (auto simp: constructed_def Vacancy_init_def py_or_def)

lemma init_constructed:
  "constructed v \<Longrightarrow> Vacancy_init (title v) (url v) (salary v) (description v) = v"
  by (auto simp: constructed_def Vacancy_init_def py_or_def)

text \<open>
  C4. Constructing a vacancy with a salary that is a number stores that number: an
  integer unchanged, a float unchanged unless it is zero, when the integer 0 is stored
  (which equals it); the stored value equals the input in the sense of \<open>==\<close> for every
  number but \<open>nan\<close>, which is stored as it is. A null salary is stored as 0, and the
  salary is never null after construction, whatever the input.
\<close>

theorem Vacancy_init_salary:
  "salary (Vacancy_init t u (PInt i) d) = PInt i
   \<and> salary (Vacancy_init t u (PFloat f) d) = (if f = FNum 0 then PInt 0 else PFloat f)
   \<and> (is_number s \<and> s \<noteq> PFloat FNaN \<longrightarrow> py_eq (salary (Vacancy_init t u s d)) s)
   \<and> salary (Vacancy_init t u PNone d) = PInt 0
   \<and> salary (Vacancy_init t u s d) \<noteq> PNone"
proof -
  have eq: "is_number s \<and> s \<noteq> PFloat FNaN \<longrightarrow> py_eq (salary (Vacancy_init t u s d)) s"
  proof (cases s)
    case (PFloat f)
    then show ?thesis
      by (cases f) (simp_all add: Vacancy_init_def py_or_def is_number_def)
  qed (simp_all add: Vacancy_init_def py_or_def is_number_def)
  have ne: "salary (Vacancy_init t u s d) \<noteq> PNone"
    by (cases s) (simp_all add: Vacancy_init_def py_or_def)
  show ?thesis
    using eq ne by (simp add: Vacancy_init_def py_or_def)
qed

theorem Vacancy_init_salary_witness:
  "is_number (PFloat (FNum (1/2))) \<and> PFloat (FNum (1/2)) \<noteq> PFloat FNaN
   \<and> py_eq (salary (Vacancy_init (PStr ''Eng'') (PStr ''u1'') (PFloat (FNum (1/2)))
        (PStr ''python''))) (PFloat (FNum (1/2)))
   \<and> salary (Vacancy_init (PStr ''Eng'') (PStr ''u1'') (PInt 1000) (PStr ''python''))
        = PInt 1000
   \<and> salary (Vacancy_init (PStr ''Eng'') (PStr ''u1'') PNone (PStr ''python'')) = PInt 0"
  using Vacancy_init_salary [where t = "PStr ''Eng''" and u = "PStr ''u1''" and i = 1000
      and d = "PStr ''python''" and f = "FNum (1/2)" and s = "PFloat (FNum (1/2))"]
  by (simp add: is_number_def)

text \<open>
  C5. Vacancies are compared by salary alone: \<open><\<close>, \<open>>\<close> and \<open>==\<close> on two vacancies
  are the same comparisons on their salaries, so changing the title, the url and the
  description of either changes no comparison; for integer salaries \<open>i\<close> and \<open>j\<close> they
  are \<open>i < j\<close>, \<open>i > j\<close> and \<open>i = j\<close>.
\<close>

theorem Vacancy_compare_by_salary:
  "Vacancy_lt a b = py_lt (salary a) (salary b)
   \<and> Vacancy_gt a b = py_gt (salary a) (salary b)
   \<and> Vacancy_eq a b = py_eq (salary a) (salary b)
   \<and> Vacancy_lt (a\<lparr>title := t, url := u, description := d\<rparr>)
        (b\<lparr>title := t', url := u', description := d'\<rparr>) = Vacancy_lt a b
   \<and> Vacancy_gt (a\<lparr>title := t, url := u, description := d\<rparr>)
        (b\<lparr>title := t', url := u', description := d'\<rparr>) = Vacancy_gt a b
   \<and> Vacancy_eq (a\<lparr>title := t, url := u, description := d\<rparr>)
        (b\<lparr>title := t', url := u', description := d'\<rparr>) = Vacancy_eq a b
   \<and> Vacancy_lt (Vacancy_init t u (PInt i) d) (Vacancy_init t' u' (PInt j) d') = Inr (i < j)
   \<and> Vacancy_gt (Vacancy_init t u (PInt i) d) (Vacancy_init t' u' (PInt j) d') = Inr (i > j)
   \<and> Vacancy_eq (Vacancy_init t u (PInt i) d) (Vacancy_init t' u' (PInt j) d') = (i = j)"
  by (simp add: Vacancy_lt_def Vacancy_gt_def Vacancy_eq_def py_gt_def salary_init_int)

theorem Vacancy_compare_by_salary_witness:
  "Vacancy_eq (Vacancy_init (PStr ''Eng'') (PStr ''u1'') (PInt 1000) (PStr ''python''))
      (Vacancy_init (PStr ''Ops'') (PStr ''u2'') (PInt 1000) (PStr ''java''))
   \<and> Vacancy_lt (Vacancy_init (PStr ''Eng'') (PStr ''u1'') (PInt 1000) (PStr ''python''))
      (Vacancy_init (PStr ''Ops'') (PStr ''u2'') (PInt 2000) (PStr ''java'')) = Inr True
   \<and> Vacancy_gt (Vacancy_init (PStr ''Eng'') (PStr ''u1'') (PInt 1000) (PStr ''python''))
      (Vacancy_init (PStr ''Ops'') (PStr ''u2'') (PInt 2000) (PStr ''java'')) = Inr False"
  using Vacancy_compare_by_salary [where t = "PStr ''Eng''" and u = "PStr ''u1''"
      and d = "PStr ''python''" and t' = "PStr ''Ops''" and u' = "PStr ''u2''"
      and d' = "PStr ''java''" and i = 1000 and j = 1000
      and a = "Vacancy_init (PStr ''Eng'') (PStr ''u1'') (PInt 1000) (PStr ''python'')"
      and b = "Vacancy_init (PStr ''Ops'') (PStr ''u2'') (PInt 2000) (PStr ''java'')"]
  by (simp add: Vacancy_init_def py_or_def Vacancy_lt_def Vacancy_gt_def py_gt_def)

text \<open>
  C6. \<open>validate\<close> succeeds exactly when the salary is a number (an \<open>int\<close> or a
  \<open>float\<close>) and the title, the url and the description are strings. Otherwise it raises
  a \<open>ValueError\<close> whose message names a field, and the field named does violate its
  type contract; a salary that is not a number is reported before any other field.
\<close>

theorem validate_spec:
  "(validate v = Inr ()) =
     (is_number (salary v) \<and> isinstance_str (title v) \<and> isinstance_str (url v)
      \<and> isinstance_str (description v))
   \<and> (\<not> is_number (salary v) \<longrightarrow> validate v = Inl (ValueError ''Salary must be a number''))
   \<and> (validate v = Inl (ValueError ''Salary must be a number'') \<longrightarrow> \<not> is_number (salary v))
   \<and> (validate v = Inl (ValueError ''Title must be a string'') \<longrightarrow> \<not> isinstance_str (title v))
   \<and> (validate v = Inl (ValueError ''URL must be a string'') \<longrightarrow> \<not> isinstance_str (url v))
   \<and> (validate v = Inl (ValueError ''Description must be a string'')
        \<longrightarrow> \<not> isinstance_str (description v))
   \<and> validate v \<in> {Inr (), Inl (ValueError ''Salary must be a number''),
        Inl (ValueError ''Title must be a string''), Inl (ValueError ''URL must be a string''),
        Inl (ValueError ''Description must be a string'')}"
  by (simp add: validate_def is_number_def)

theorem validate_spec_witness:
  "validate (Vacancy_init (PStr ''Eng'') (PStr ''u1'') (PInt 1000) (PStr ''python'')) = Inr ()
   \<and> \<not> is_number (salary (Vacancy_init (PStr ''Eng'') (PStr ''u1'') (PStr ''high'')
         (PStr ''python'')))
   \<and> validate (Vacancy_init (PStr ''Eng'') (PStr ''u1'') (PStr ''high'') (PStr ''python''))
       = Inl (ValueError ''Salary must be a number'')
   \<and> validate (Vacancy_init (PStr ''Eng'') PNone (PInt 1000) (PStr ''python''))
       = Inl (ValueError ''URL must be a string'')
   \<and> \<not> isinstance_str (url (Vacancy_init (PStr ''Eng'') PNone (PInt 1000) (PStr ''python'')))"
  using validate_spec [of "Vacancy_init (PStr ''Eng'') (PStr ''u1'') (PInt 1000) (PStr ''python'')"]
    validate_spec [of "Vacancy_init (PStr ''Eng'') (PStr ''u1'') (PStr ''high'') (PStr ''python'')"]
    validate_spec [of "Vacancy_init (PStr ''Eng'') PNone (PInt 1000) (PStr ''python'')"]
  by (simp add: Vacancy_init_def py_or_def is_number_def isinstance_str_def validate_def)

text \<open>
  C8, as stated: after construction the salary is a number greater than or equal to
  zero, for every salary input including negative numbers. It fails for the input -5,
  which is stored unchanged.
\<close>

theorem salary_nonneg_counterexample:
  "\<not> nonneg_number (salary (Vacancy_init (PStr ''Eng'') (PStr ''u1'') (PInt (- 5))
       (PStr ''python'')))"
  by (simp add: Vacancy_init_def py_or_def nonneg_number_def is_number_def)

text \<open>
  C8, amended. For a salary input that is null or a number, the salary after
  construction is a number greater than or equal to zero exactly when the input is null
  or is itself such a number: null becomes 0, a number is stored with its sign.
\<close>

theorem salary_nonneg_amended:
  "s = PNone \<or> is_number s \<Longrightarrow>
     nonneg_number (salary (Vacancy_init t u s d)) = (s = PNone \<or> nonneg_number s)"
proof (cases s)
  case (PFloat f)
  then show ?thesis
    by (cases f) (simp_all add: Vacancy_init_def py_or_def nonneg_number_def is_number_def)
qed (simp_all add: Vacancy_init_def py_or_def nonneg_number_def is_number_def)

theorem salary_nonneg_amended_witness:
  "(PInt 1000 = PNone \<or> is_number (PInt 1000))
   \<and> nonneg_number (salary (Vacancy_init (PStr ''Eng'') (PStr ''u1'') (PInt 1000)
        (PStr ''python'')))
   \<and> nonneg_number (salary (Vacancy_init (PStr ''Eng'') (PStr ''u1'') PNone (PStr ''python'')))"
  using salary_nonneg_amended [where s = "PInt 1000" and t = "PStr ''Eng''" and u = "PStr ''u1''"
      and d = "PStr ''python''"]
    salary_nonneg_amended [where s = PNone and t = "PStr ''Eng''" and u = "PStr ''u1''"
      and d = "PStr ''python''"]
  by (simp add: nonneg_number_def is_number_def)


section \<open>Properties of the remote source\<close>

text \<open>
  C7, as stated: every 2xx response is a success. A response with status 201 and a body
  that has an \<open>items\<close> field raises instead.
\<close>

theorem api_any_2xx_counterexample:
  "HhVacancyAPI_get_vacancies
     (remote_answering \<lparr>status_code = 201, body = Json (PDict [(''items'', PList [])])\<rparr>)
     ''YOUR_API_KEY'' ''python'' 0
   = Inl (Exception_getting_vacancies 201)"
  by (simp add: HhVacancyAPI_get_vacancies_def remote_answering_def)

text \<open>
  C7, amended. Given the response to the request, \<open>get_vacancies\<close> returns the value of
  the \<open>items\<close> field of the body exactly when the status code is 200 and the body is a
  JSON object with that field; for every other status code, the other 2xx codes
  included, it raises the exception that carries the status code.
\<close>

theorem api_get_vacancies_amended:
  assumes "requests_get API_URL [(''Authorization'', ''Bearer '' @ api_key)]
             [(''text'', PStr q), (''page'', PInt page)] = Inr r"
  shows "(status_code r \<noteq> 200 \<longrightarrow>
            HhVacancyAPI_get_vacancies requests_get api_key q page
              = Inl (Exception_getting_vacancies (status_code r)))
       \<and> (status_code r = 200 \<and> body r = Json (PDict d) \<and> map_of d ''items'' = Some items \<longrightarrow>
            HhVacancyAPI_get_vacancies requests_get api_key q page = Inr items)
       \<and> (HhVacancyAPI_get_vacancies requests_get api_key q page = Inr result \<longrightarrow>
            status_code r = 200
            \<and> (\<exists>d'. body r = Json (PDict d') \<and> map_of d' ''items'' = Some result))"
proof -
  have run: "HhVacancyAPI_get_vacancies requests_get api_key q page =
      (if status_code r = 200 then
         (case json_load (body r) of Inl e \<Rightarrow> Inl e | Inr j \<Rightarrow> py_getitem j ''items'')
       else Inl (Exception_getting_vacancies (status_code r)))"
    using assms by (simp add: HhVacancyAPI_get_vacancies_def)
  have other: "status_code r \<noteq> 200 \<longrightarrow>
      HhVacancyAPI_get_vacancies requests_get api_key q page
        = Inl (Exception_getting_vacancies (status_code r))"
    by (simp add: run)
  have ok: "status_code r = 200 \<and> body r = Json (PDict d) \<and> map_of d ''items'' = Some items \<longrightarrow>
      HhVacancyAPI_get_vacancies requests_get api_key q page = Inr items"
    by (simp add: run json_load_def)
  have only: "status_code r = 200
      \<and> (\<exists>d'. body r = Json (PDict d') \<and> map_of d' ''items'' = Some result)"
    if res: "HhVacancyAPI_get_vacancies requests_get api_key q page = Inr result"
  proof -
    from res have st: "status_code r = 200"
      by (simp add: run split: if_splits)
    with res have j: "(case json_load (body r) of Inl e \<Rightarrow> Inl e
        | Inr j \<Rightarrow> py_getitem j ''items'') = Inr result"
      by (simp add: run)
    then obtain j where b: "body r = Json j" and g: "py_getitem j ''items'' = Inr result"
      by (cases "body r") (simp_all add: json_load_def)
    from g obtain d' where "j = PDict d'" and "map_of d' ''items'' = Some result"
      by (cases j) (simp_all split: option.splits)
    with b st show ?thesis by blast
  qed
  from other ok only show ?thesis by blast
qed

theorem api_get_vacancies_amended_witness:
  "HhVacancyAPI_get_vacancies
     (remote_answering \<lparr>status_code = 200,
        body = Json (PDict [(''items'', PList [PDict [(''name'', PStr ''Eng'')]])])\<rparr>)
     ''YOUR_API_KEY'' ''python'' 0
   = Inr (PList [PDict [(''name'', PStr ''Eng'')]])
   \<and> HhVacancyAPI_get_vacancies
     (remote_answering \<lparr>status_code = 404, body = Malformed\<rparr>)
     ''YOUR_API_KEY'' ''python'' 0
   = Inl (Exception_getting_vacancies 404)"
  using api_get_vacancies_amended [where requests_get = "remote_answering
        \<lparr>status_code = 200,
         body = Json (PDict [(''items'', PList [PDict [(''name'', PStr ''Eng'')]])])\<rparr>"
      and api_key = "''YOUR_API_KEY''" and q = "''python''" and page = 0
      and r = "\<lparr>status_code = 200,
             body = Json (PDict [(''items'', PList [PDict [(''name'', PStr ''Eng'')]])])\<rparr>"
      and d = "[(''items'', PList [PDict [(''name'', PStr ''Eng'')]])]"
      and items = "PList [PDict [(''name'', PStr ''Eng'')]]"]
    api_get_vacancies_amended [where requests_get = "remote_answering
        \<lparr>status_code = 404, body = Malformed\<rparr>"
      and api_key = "''YOUR_API_KEY''" and q = "''python''" and page = 0
      and r = "\<lparr>status_code = 404, body = Malformed\<rparr>"]
  by (simp add: remote_answering_def)


section \<open>Properties of the storage\<close>

lemma getitem_Vacancy_dict:
  "k \<in> set field_names \<Longrightarrow> py_getitem (Vacancy_dict v) k = Inr (field k v)"
  by (auto simp: field_names_def Vacancy_dict_def field_def)

lemma getitem_Vacancy_dict_missing:
  "k \<notin> set field_names \<Longrightarrow> py_getitem (Vacancy_dict v) k = Inl (KeyError k)"
  by (simp add: field_names_def Vacancy_dict_def)

lemma kwargs_Vacancy_dict:
  "Vacancy_kwargs (Vacancy_dict v) =
     Inr (Vacancy_init (title v) (url v) (salary v) (description v))"
  by (simp add: Vacancy_kwargs_def Vacancy_dict_def)

lemma get_loop_stored:
  "k \<in> set field_names \<Longrightarrow> \<forall>v \<in> set vs. constructed v \<Longrightarrow>
     get_loop k x (map Vacancy_dict vs) = Inr (filter (\<lambda>v. py_eq (field k v) x) vs)"
  by (induction vs) (simp_all add: getitem_Vacancy_dict kwargs_Vacancy_dict init_constructed)

lemma get_loop_stored_missing:
  "k \<notin> set field_names \<Longrightarrow> vs \<noteq> [] \<Longrightarrow>
     get_loop k x (map Vacancy_dict vs) = Inl (KeyError k)"
  by (cases vs) (simp_all add: getitem_Vacancy_dict_missing)

lemma delete_loop_records:
  "\<forall>d \<in> set ds. map_of d k \<noteq> None \<Longrightarrow>
     delete_loop k x (map PDict ds) = Inr (map PDict (filter (\<lambda>d. \<not> matches k x d) ds))"
  by (induction ds) (auto simp: matches_def py_ne_def)

lemma get_loop_no_match:
  "\<forall>d \<in> set ds. map_of d k \<noteq> None \<and> \<not> matches k x d \<Longrightarrow>
     get_loop k x (map PDict ds) = Inr []"
  by (induction ds) (auto simp: matches_def)

lemma get_loop_subset:
  assumes "get_loop k x (map Vacancy_dict vs) = Inr rs" and "\<forall>v \<in> set vs. constructed v"
  shows "set rs \<subseteq> set vs"
proof (cases "k \<in> set field_names")
  case True
  with assms have "rs = filter (\<lambda>v. py_eq (field k v) x) vs"
    by (simp add: get_loop_stored)
  then show ?thesis by simp
next
  case False
  show ?thesis
  proof (cases "vs = []")
    case True
    with assms(1) show ?thesis by simp
  next
    case nonempty: False
    from get_loop_stored_missing [OF False nonempty] assms(1) show ?thesis
      by simp
  qed
qed

lemma filter_single:
  assumes "distinct vs" and "r \<in> set vs" and "P r"
    and other: "\<And>v. v \<in> set vs \<Longrightarrow> P v \<Longrightarrow> v = r"
  shows "filter P vs = [r]"
proof -
  from assms(2) obtain ys zs where vs: "vs = ys @ r # zs"
    by (auto simp: in_set_conv_decomp)
  with assms(1) have notin: "r \<notin> set ys" "r \<notin> set zs"
    by auto
  have "filter P ys = []"
    unfolding filter_empty_conv
  proof
    fix v assume "v \<in> set ys"
    with other [of v] vs notin show "\<not> P v" by auto
  qed
  moreover have "filter P zs = []"
    unfolding filter_empty_conv
  proof
    fix v assume "v \<in> set zs"
    with other [of v] vs notin show "\<not> P v" by auto
  qed
  ultimately show ?thesis
    using vs assms(3) by simp
qed

lemma add_vacancies_writable:
  "writable m \<Longrightarrow>
     add_vacancies vs m = Inr (m\<lparr>content := Some (Json (PList (map Vacancy_dict vs)))\<rparr>)"
  by (simp add: add_vacancies_def write_json_def)

lemma get_vacancies_list:
  "readable m \<Longrightarrow> content m = Some (Json (PList vs)) \<Longrightarrow>
     get_vacancies k x m = get_loop k x vs"
  by (simp add: get_vacancies_def read_json_def json_load_def)

lemma delete_vacancies_list:
  "readable m \<Longrightarrow> content m = Some (Json (PList vs)) \<Longrightarrow>
     delete_vacancies k x m =
       (case delete_loop k x vs of Inl e \<Rightarrow> Inl e | Inr kept \<Rightarrow> write_json (PList kept) m)"
  by (simp add: delete_vacancies_def read_json_def json_load_def)

lemma Vacancy_kwargs_error: "Vacancy_kwargs v = Inl e \<Longrightarrow> e = TypeError"
  by (simp add: Vacancy_kwargs_def split: pyval.splits option.splits if_splits)

lemma delete_loop_missing:
  "\<exists>d \<in> set ds. map_of d k = None \<Longrightarrow> delete_loop k x (map PDict ds) = Inl (KeyError k)"
proof (induction ds)
  case Nil
  then show ?case by simp
next
  case (Cons d ds)
  show ?case
  proof (cases "map_of d k")
    case None
    then show ?thesis by simp
  next
    case (Some y)
    with Cons.prems have "\<exists>d \<in> set ds. map_of d k = None" by auto
    then have "delete_loop k x (map PDict ds) = Inl (KeyError k)" by (rule Cons.IH)
    with Some show ?thesis by simp
  qed
qed

lemma get_loop_missing:
  "\<exists>d \<in> set ds. map_of d k = None \<Longrightarrow>
     get_loop k x (map PDict ds) =
       (if \<forall>d \<in> set (takeWhile (\<lambda>d. map_of d k \<noteq> None) ds).
             matches k x d \<longrightarrow> Vacancy_kwargs (PDict d) \<noteq> Inl TypeError
        then Inl (KeyError k) else Inl TypeError)"
proof (induction ds)
  case Nil
  then show ?case by simp
next
  case (Cons d ds)
  show ?case
  proof (cases "map_of d k")
    case None
    then show ?thesis by simp
  next
    case (Some y)
    with Cons.prems have "\<exists>d \<in> set ds. map_of d k = None" by auto
    then have IH: "get_loop k x (map PDict ds) =
       (if \<forall>d \<in> set (takeWhile (\<lambda>d. map_of d k \<noteq> None) ds).
             matches k x d \<longrightarrow> Vacancy_kwargs (PDict d) \<noteq> Inl TypeError
        then Inl (KeyError k) else Inl TypeError)"
      by (rule Cons.IH)
    show ?thesis
    proof (cases "py_eq y x")
      case False
      with Some have "get_loop k x (map PDict (d # ds)) = get_loop k x (map PDict ds)"
        and "\<not> matches k x d"
        by (simp_all add: matches_def)
      with Some IH show ?thesis by simp
    next
      case True
      with Some have m: "matches k x d" by (simp add: matches_def)
      show ?thesis
      proof (cases "Vacancy_kwargs (PDict d)")
        case (Inl e)
        then have e: "Vacancy_kwargs (PDict d) = Inl TypeError"
          using Vacancy_kwargs_error by blast
        with Some True have "get_loop k x (map PDict (d # ds)) = Inl TypeError" by simp
        with Some m e show ?thesis by simp
      next
        case (Inr vac)
        with Some True have "get_loop k x (map PDict (d # ds)) =
            (case get_loop k x (map PDict ds) of Inl e \<Rightarrow> Inl e | Inr rest \<Rightarrow> Inr (vac # rest))"
          by simp
        with Some Inr IH show ?thesis by simp
      qed
    qed
  qed
qed

text \<open>
  C1. On a medium that can be written, \<open>add_vacancies\<close> with \<open>A\<close> and then with \<open>B\<close>
  leaves exactly the records of \<open>B\<close> as the content: the medium is the one that
  \<open>add_vacancies\<close> with \<open>B\<close> alone leaves, and whatever a later \<open>get_vacancies\<close> returns
  is made of vacancies of \<open>B\<close>; with a field name as the key, on a medium that can be
  read, it returns the vacancies of \<open>B\<close> that have the value, in their order.
\<close>

theorem add_vacancies_replaces:
  assumes "writable m" and "\<forall>v \<in> set B. constructed v"
  shows "\<exists>m1 m2. add_vacancies A m = Inr m1 \<and> add_vacancies B m1 = Inr m2
           \<and> content m2 = Some (Json (PList (map Vacancy_dict B)))
           \<and> add_vacancies B m = Inr m2
           \<and> (\<forall>k x rs. get_vacancies k x m2 = Inr rs \<longrightarrow> set rs \<subseteq> set B)
           \<and> (\<forall>k x. readable m \<and> k \<in> set field_names \<longrightarrow>
                get_vacancies k x m2 = Inr (filter (\<lambda>v. py_eq (field k v) x) B))"
proof -
  let ?m1 = "m\<lparr>content := Some (Json (PList (map Vacancy_dict A)))\<rparr>"
  let ?m2 = "m\<lparr>content := Some (Json (PList (map Vacancy_dict B)))\<rparr>"
  have a: "add_vacancies A m = Inr ?m1"
    using assms(1) by (rule add_vacancies_writable)
  have "add_vacancies B ?m1 = Inr (?m1\<lparr>content := Some (Json (PList (map Vacancy_dict B)))\<rparr>)"
    using assms(1) by (intro add_vacancies_writable) simp
  then have b: "add_vacancies B ?m1 = Inr ?m2" by simp
  have c: "add_vacancies B m = Inr ?m2"
    using assms(1) by (rule add_vacancies_writable)
  have d: "set rs \<subseteq> set B" if "get_vacancies k x ?m2 = Inr rs" for k x rs
  proof -
    have "get_loop k x (map Vacancy_dict B) = Inr rs"
      using that
      by (simp add: get_vacancies_def read_json_def json_load_def split: if_splits)
    then show ?thesis using assms(2) by (rule get_loop_subset)
  qed
  have e: "content ?m2 = Some (Json (PList (map Vacancy_dict B)))" by simp
  have f: "get_vacancies k x ?m2 = Inr (filter (\<lambda>v. py_eq (field k v) x) B)"
    if "readable m \<and> k \<in> set field_names" for k x
  proof -
    from that have "get_vacancies k x ?m2 = get_loop k x (map Vacancy_dict B)"
      by (intro get_vacancies_list) simp_all
    with that assms(2) show ?thesis
      by (simp add: get_loop_stored)
  qed
  from a b c d e f show ?thesis by blast
qed

theorem add_vacancies_replaces_witness:
  "writable \<lparr>content = None, readable = True, writable = True\<rparr>
   \<and> constructed (Vacancy_init (PStr ''Ops'') (PStr ''u2'') (PInt 2000) (PStr ''java''))
   \<and> (\<exists>m1 m2.
         add_vacancies [Vacancy_init (PStr ''Eng'') (PStr ''u1'') (PInt 1000) (PStr ''python'')]
           \<lparr>content = None, readable = True, writable = True\<rparr> = Inr m1
       \<and> add_vacancies [Vacancy_init (PStr ''Ops'') (PStr ''u2'') (PInt 2000) (PStr ''java'')] m1
           = Inr m2
       \<and> content m2 = Some (Json (PList (map Vacancy_dict
           [Vacancy_init (PStr ''Ops'') (PStr ''u2'') (PInt 2000) (PStr ''java'')])))
       \<and> add_vacancies [Vacancy_init (PStr ''Ops'') (PStr ''u2'') (PInt 2000) (PStr ''java'')]
           \<lparr>content = None, readable = True, writable = True\<rparr> = Inr m2
       \<and> (\<forall>k x rs. get_vacancies k x m2 = Inr rs \<longrightarrow>
            set rs \<subseteq> set [Vacancy_init (PStr ''Ops'') (PStr ''u2'') (PInt 2000) (PStr ''java'')])
       \<and> (\<forall>k x. readable \<lparr>content = None, readable = True, writable = True\<rparr>
              \<and> k \<in> set field_names \<longrightarrow>
            get_vacancies k x m2 = Inr (filter (\<lambda>v. py_eq (field k v) x)
              [Vacancy_init (PStr ''Ops'') (PStr ''u2'') (PInt 2000) (PStr ''java'')])))"
  (is "?W \<and> ?C \<and> ?E")
proof -
  have w: ?W by simp
  have c: ?C by (rule constructed_init)
  then have c': "\<forall>v \<in> set [Vacancy_init (PStr ''Ops'') (PStr ''u2'') (PInt 2000)
      (PStr ''java'')]. constructed v"
    by simp
  have ?E by (rule add_vacancies_replaces [OF w c'])
  with w c show ?thesis by blast
qed


text \<open>
  C2, as stated: reading back with a record's own value of a field returns exactly that
  record. Two stored vacancies without a salary both have the salary 0, and
  \<open>get_vacancies\<close> with the key \<open>salary\<close> and the value 0 returns both of them.
\<close>

theorem round_trip_exactly_counterexample:
  "add_vacancies
       [Vacancy_init (PStr ''Eng'') (PStr ''u1'') PNone (PStr ''python''),
        Vacancy_init (PStr ''Ops'') (PStr ''u2'') PNone (PStr ''java'')]
       \<lparr>content = None, readable = True, writable = True\<rparr>
     = Inr \<lparr>content = Some (Json (PList
           [Vacancy_dict (Vacancy_init (PStr ''Eng'') (PStr ''u1'') PNone (PStr ''python'')),
            Vacancy_dict (Vacancy_init (PStr ''Ops'') (PStr ''u2'') PNone (PStr ''java''))])),
         readable = True, writable = True\<rparr>
   \<and> field ''salary'' (Vacancy_init (PStr ''Eng'') (PStr ''u1'') PNone (PStr ''python''))
     = PInt 0
   \<and> get_vacancies ''salary'' (PInt 0)
       \<lparr>content = Some (Json (PList
           [Vacancy_dict (Vacancy_init (PStr ''Eng'') (PStr ''u1'') PNone (PStr ''python'')),
            Vacancy_dict (Vacancy_init (PStr ''Ops'') (PStr ''u2'') PNone (PStr ''java''))])),
         readable = True, writable = True\<rparr>
     = Inr [Vacancy_init (PStr ''Eng'') (PStr ''u1'') PNone (PStr ''python''),
            Vacancy_init (PStr ''Ops'') (PStr ''u2'') PNone (PStr ''java'')]"
  by (simp add: add_vacancies_def write_json_def get_vacancies_def read_json_def
      json_load_def Vacancy_dict_def Vacancy_kwargs_def Vacancy_init_def py_or_def field_def)

text \<open>
  C2, amended. After \<open>add_vacancies\<close> has stored a collection on a medium that can be
  written and read, \<open>get_vacancies\<close> with a field name \<open>k\<close> and the value a stored
  record \<open>r\<close> has for \<open>k\<close> returns exactly the stored vacancies whose value for \<open>k\<close>
  equals it, in stored order and with all four fields as stored. The record \<open>r\<close> is
  among them when its value equals itself, and it is the only one when the collection
  has no duplicates and no other record has an equal value for \<open>k\<close>.
\<close>

theorem round_trip_amended:
  assumes "writable m" and "readable m" and "\<forall>v \<in> set vs. constructed v"
    and "r \<in> set vs" and "k \<in> set field_names"
  shows "\<exists>m'. add_vacancies vs m = Inr m'
           \<and> get_vacancies k (field k r) m'
               = Inr (filter (\<lambda>v. py_eq (field k v) (field k r)) vs)
           \<and> (py_eq (field k r) (field k r) \<longrightarrow>
                r \<in> set (filter (\<lambda>v. py_eq (field k v) (field k r)) vs))
           \<and> (py_eq (field k r) (field k r) \<and> distinct vs
                \<and> (\<forall>v \<in> set vs. py_eq (field k v) (field k r) \<longrightarrow> v = r) \<longrightarrow>
                get_vacancies k (field k r) m' = Inr [r])"
proof -
  let ?m' = "m\<lparr>content := Some (Json (PList (map Vacancy_dict vs)))\<rparr>"
  let ?P = "\<lambda>v. py_eq (field k v) (field k r)"
  have a: "add_vacancies vs m = Inr ?m'"
    using assms(1) by (rule add_vacancies_writable)
  have "get_vacancies k (field k r) ?m' = get_loop k (field k r) (map Vacancy_dict vs)"
    using assms(2) by (intro get_vacancies_list) simp_all
  also have "\<dots> = Inr (filter ?P vs)"
    using assms(5) assms(3) by (rule get_loop_stored)
  finally have g: "get_vacancies k (field k r) ?m' = Inr (filter ?P vs)" .
  have mem: "?P r \<longrightarrow> r \<in> set (filter ?P vs)"
    using assms(4) by simp
  have single: "get_vacancies k (field k r) ?m' = Inr [r]"
    if h: "?P r \<and> distinct vs \<and> (\<forall>v \<in> set vs. ?P v \<longrightarrow> v = r)"
  proof -
    from h have "distinct vs" and "?P r" and "\<And>v. v \<in> set vs \<Longrightarrow> ?P v \<Longrightarrow> v = r"
      by blast+
    with assms(4) have "filter ?P vs = [r]"
      by (intro filter_single)
    with g show ?thesis by simp
  qed
  from a g mem single show ?thesis by blast
qed

theorem round_trip_amended_witness:
  "writable \<lparr>content = None, readable = True, writable = True\<rparr>
   \<and> readable \<lparr>content = None, readable = True, writable = True\<rparr>
   \<and> constructed (Vacancy_init (PStr ''Eng'') (PStr ''u1'') (PInt 1000) (PStr ''python''))
   \<and> constructed (Vacancy_init (PStr ''Ops'') (PStr ''u2'') (PInt 2000) (PStr ''java''))
   \<and> Vacancy_init (PStr ''Eng'') (PStr ''u1'') (PInt 1000) (PStr ''python'')
       \<in> set [Vacancy_init (PStr ''Eng'') (PStr ''u1'') (PInt 1000) (PStr ''python''),
               Vacancy_init (PStr ''Ops'') (PStr ''u2'') (PInt 2000) (PStr ''java'')]
   \<and> ''salary'' \<in> set field_names
   \<and> (\<exists>m'. add_vacancies
              [Vacancy_init (PStr ''Eng'') (PStr ''u1'') (PInt 1000) (PStr ''python''),
               Vacancy_init (PStr ''Ops'') (PStr ''u2'') (PInt 2000) (PStr ''java'')]
              \<lparr>content = None, readable = True, writable = True\<rparr> = Inr m'
          \<and> get_vacancies ''salary'' (PInt 1000) m'
              = Inr [Vacancy_init (PStr ''Eng'') (PStr ''u1'') (PInt 1000) (PStr ''python'')])"
  (is "?W \<and> ?R \<and> ?C1 \<and> ?C2 \<and> ?M \<and> ?K \<and> ?E")
proof -
  let ?r = "Vacancy_init (PStr ''Eng'') (PStr ''u1'') (PInt 1000) (PStr ''python'')"
  let ?vs = "[?r, Vacancy_init (PStr ''Ops'') (PStr ''u2'') (PInt 2000) (PStr ''java'')]"
  let ?m = "\<lparr>content = None, readable = True, writable = True\<rparr>"
  have w: ?W and r: ?R by simp_all
  have c1: ?C1 and c2: ?C2 by (rule constructed_init)+
  then have c: "\<forall>v \<in> set ?vs. constructed v" by simp
  have m: ?M by simp
  have k: ?K by (simp add: field_names_def)
  have f: "field ''salary'' ?r = PInt 1000"
    by (simp add: field_def Vacancy_init_def py_or_def)
  have pre: "py_eq (field ''salary'' ?r) (field ''salary'' ?r) \<and> distinct ?vs
      \<and> (\<forall>v \<in> set ?vs. py_eq (field ''salary'' v) (field ''salary'' ?r) \<longrightarrow> v = ?r)"
    by (simp add: field_def Vacancy_init_def py_or_def)
  from round_trip_amended [OF w r c m k] obtain m' where
    "add_vacancies ?vs ?m = Inr m'"
    and "py_eq (field ''salary'' ?r) (field ''salary'' ?r) \<and> distinct ?vs
      \<and> (\<forall>v \<in> set ?vs. py_eq (field ''salary'' v) (field ''salary'' ?r) \<longrightarrow> v = ?r) \<longrightarrow>
      get_vacancies ''salary'' (field ''salary'' ?r) m' = Inr [?r]"
    by blast
  with pre have "add_vacancies ?vs ?m = Inr m'"
    and "get_vacancies ''salary'' (field ''salary'' ?r) m' = Inr [?r]"
    by blast+
  then have ?E unfolding f by blast
  with w r c1 c2 m k show ?thesis by blast
qed


text \<open>
  C3. On a medium that can be read and written and holds a list of records that all
  have the key, \<open>delete_vacancies\<close> leaves exactly the records whose value for the key
  does not equal the given value, unchanged and in their order, and a following
  \<open>get_vacancies\<close> with the same key and value returns the empty list.
\<close>

theorem delete_vacancies_removes_matching:
  assumes "readable m" and "writable m"
    and "content m = Some (Json (PList (map PDict ds)))"
    and "\<forall>d \<in> set ds. map_of d k \<noteq> None"
  shows "\<exists>m'. delete_vacancies k x m = Inr m'
           \<and> content m' = Some (Json (PList (map PDict (filter (\<lambda>d. \<not> matches k x d) ds))))
           \<and> readable m' \<and> writable m'
           \<and> get_vacancies k x m' = Inr []"
proof -
  let ?kept = "filter (\<lambda>d. \<not> matches k x d) ds"
  let ?m' = "m\<lparr>content := Some (Json (PList (map PDict ?kept)))\<rparr>"
  have "delete_vacancies k x m =
      (case delete_loop k x (map PDict ds) of
         Inl e \<Rightarrow> Inl e | Inr kept \<Rightarrow> write_json (PList kept) m)"
    using assms(1) assms(3) by (rule delete_vacancies_list)
  also have "\<dots> = write_json (PList (map PDict ?kept)) m"
    using assms(4) by (simp add: delete_loop_records)
  also have "\<dots> = Inr ?m'"
    using assms(2) by (simp add: write_json_def)
  finally have del: "delete_vacancies k x m = Inr ?m'" .
  have kept: "\<forall>d \<in> set ?kept. map_of d k \<noteq> None \<and> \<not> matches k x d"
    using assms(4) by simp
  have "get_vacancies k x ?m' = get_loop k x (map PDict ?kept)"
    using assms(1) by (intro get_vacancies_list) simp_all
  also have "\<dots> = Inr []"
    using kept by (rule get_loop_no_match)
  finally have get: "get_vacancies k x ?m' = Inr []" .
  have "content ?m' = Some (Json (PList (map PDict ?kept)))"
    and "readable ?m'" and "writable ?m'"
    using assms(1) assms(2) by simp_all
  with del get show ?thesis by blast
qed

theorem delete_vacancies_removes_matching_witness:
  "readable \<lparr>content = Some (Json (PList (map PDict
       [[(''title'', PStr ''Eng''), (''url'', PStr ''u1''), (''salary'', PInt 1000),
         (''description'', PStr ''python'')],
        [(''title'', PStr ''Ops''), (''url'', PStr ''u2''), (''salary'', PInt 2000),
         (''description'', PStr ''java'')],
        [(''title'', PStr ''Dev''), (''url'', PStr ''u3''), (''salary'', PInt 0),
         (''description'', PStr ''python'')]]))),
       readable = True, writable = True\<rparr>
   \<and> (\<exists>m'. delete_vacancies ''description'' (PStr ''python'')
         \<lparr>content = Some (Json (PList (map PDict
           [[(''title'', PStr ''Eng''), (''url'', PStr ''u1''), (''salary'', PInt 1000),
             (''description'', PStr ''python'')],
            [(''title'', PStr ''Ops''), (''url'', PStr ''u2''), (''salary'', PInt 2000),
             (''description'', PStr ''java'')],
            [(''title'', PStr ''Dev''), (''url'', PStr ''u3''), (''salary'', PInt 0),
             (''description'', PStr ''python'')]]))),
           readable = True, writable = True\<rparr> = Inr m'
       \<and> content m' = Some (Json (PList
           [PDict [(''title'', PStr ''Ops''), (''url'', PStr ''u2''), (''salary'', PInt 2000),
             (''description'', PStr ''java'')]]))
       \<and> get_vacancies ''description'' (PStr ''python'') m' = Inr [])"
  (is "readable ?m \<and> ?E")
proof -
  let ?ds = "[[(''title'', PStr ''Eng''), (''url'', PStr ''u1''), (''salary'', PInt 1000),
         (''description'', PStr ''python'')],
        [(''title'', PStr ''Ops''), (''url'', PStr ''u2''), (''salary'', PInt 2000),
         (''description'', PStr ''java'')],
        [(''title'', PStr ''Dev''), (''url'', PStr ''u3''), (''salary'', PInt 0),
         (''description'', PStr ''python'')]]"
  have r: "readable ?m" and w: "writable ?m" by simp_all
  have c: "content ?m = Some (Json (PList (map PDict ?ds)))" by simp
  have k: "\<forall>d \<in> set ?ds. map_of d ''description'' \<noteq> None" by simp
  have f: "map PDict (filter (\<lambda>d. \<not> matches ''description'' (PStr ''python'') d) ?ds)
      = [PDict [(''title'', PStr ''Ops''), (''url'', PStr ''u2''), (''salary'', PInt 2000),
             (''description'', PStr ''java'')]]"
    by (simp add: matches_def)
  from delete_vacancies_removes_matching [OF r w c k, of "PStr ''python''"]
  have ?E unfolding f by blast
  with r show ?thesis by blast
qed

text \<open>
  C10, as stated: whenever the key is absent from at least one stored record,
  \<open>get_vacancies\<close> raises the missing-key error. Here the second record has no
  description, but the first one has the value asked for and a field \<open>company\<close> that
  \<open>Vacancy\<close> does not accept: \<open>Vacancy(**v)\<close> raises a \<open>TypeError\<close> before the second
  record is looked at.
\<close>

theorem missing_key_counterexample:
  "map_of [(''title'', PStr ''Ops''), (''url'', PStr ''u2''), (''salary'', PInt 2000)]
       ''description'' = None
   \<and> get_vacancies ''description'' (PStr ''python'')
       \<lparr>content = Some (Json (PList
          [PDict [(''title'', PStr ''Eng''), (''url'', PStr ''u1''), (''salary'', PInt 1000),
                  (''description'', PStr ''python''), (''company'', PStr ''hh'')],
           PDict [(''title'', PStr ''Ops''), (''url'', PStr ''u2''), (''salary'', PInt 2000)]])),
         readable = True, writable = True\<rparr>
     = Inl TypeError"
  by (simp add: get_vacancies_def read_json_def json_load_def Vacancy_kwargs_def)

text \<open>
  C10, amended. When a readable store holds a list of records and the key is absent
  from at least one of them, \<open>delete_vacancies\<close> raises the \<open>KeyError\<close> of the key, and
  \<open>get_vacancies\<close> raises as well, so that no record is taken as a non-match and nothing
  is returned: it raises the \<open>KeyError\<close> of the key when every record that comes
  before the first one without the key and has the value asked for is a record of
  exactly the four fields, as all of them are in a collection that \<open>add_vacancies\<close>
  stored; otherwise it raises the \<open>TypeError\<close> of \<open>Vacancy(**v)\<close> for such an earlier
  record.
\<close>

theorem missing_key_amended:
  assumes "readable m" and "content m = Some (Json (PList (map PDict ds)))"
    and "\<exists>d \<in> set ds. map_of d k = None"
  shows "delete_vacancies k x m = Inl (KeyError k)
       \<and> get_vacancies k x m =
           (if \<forall>d \<in> set (takeWhile (\<lambda>d. map_of d k \<noteq> None) ds).
                 matches k x d \<longrightarrow> Vacancy_kwargs (PDict d) \<noteq> Inl TypeError
            then Inl (KeyError k) else Inl TypeError)
       \<and> ((\<forall>d \<in> set ds. Vacancy_kwargs (PDict d) \<noteq> Inl TypeError) \<longrightarrow>
            get_vacancies k x m = Inl (KeyError k))"
proof -
  let ?ok = "\<forall>d \<in> set (takeWhile (\<lambda>d. map_of d k \<noteq> None) ds).
      matches k x d \<longrightarrow> Vacancy_kwargs (PDict d) \<noteq> Inl TypeError"
  have "delete_vacancies k x m =
      (case delete_loop k x (map PDict ds) of
         Inl e \<Rightarrow> Inl e | Inr kept \<Rightarrow> write_json (PList kept) m)"
    using assms(1) assms(2) by (rule delete_vacancies_list)
  then have del: "delete_vacancies k x m = Inl (KeyError k)"
    using assms(3) by (simp add: delete_loop_missing)
  have "get_vacancies k x m = get_loop k x (map PDict ds)"
    using assms(1) assms(2) by (rule get_vacancies_list)
  also have "\<dots> = (if ?ok then Inl (KeyError k) else Inl TypeError)"
    using assms(3) by (rule get_loop_missing)
  finally have get: "get_vacancies k x m = (if ?ok then Inl (KeyError k) else Inl TypeError)" .
  have shaped: "get_vacancies k x m = Inl (KeyError k)"
    if all: "\<forall>d \<in> set ds. Vacancy_kwargs (PDict d) \<noteq> Inl TypeError"
  proof -
    have ?ok
    proof (intro ballI impI)
      fix d assume "d \<in> set (takeWhile (\<lambda>d. map_of d k \<noteq> None) ds)"
      then have "d \<in> set ds" by (rule set_takeWhileD [THEN conjunct1])
      with all show "Vacancy_kwargs (PDict d) \<noteq> Inl TypeError" by blast
    qed
    with get show ?thesis by simp
  qed
  from del get shaped show ?thesis by blast
qed

theorem missing_key_amended_witness:
  "readable \<lparr>content = Some (Json (PList (map PDict
       [[(''title'', PStr ''Eng''), (''url'', PStr ''u1''), (''salary'', PInt 1000),
         (''description'', PStr ''python'')],
        [(''title'', PStr ''Ops''), (''url'', PStr ''u2''), (''salary'', PInt 2000)]]))),
       readable = True, writable = True\<rparr>
   \<and> map_of [(''title'', PStr ''Ops''), (''url'', PStr ''u2''), (''salary'', PInt 2000)]
       ''description'' = None
   \<and> delete_vacancies ''description'' (PStr ''python'')
       \<lparr>content = Some (Json (PList (map PDict
         [[(''title'', PStr ''Eng''), (''url'', PStr ''u1''), (''salary'', PInt 1000),
           (''description'', PStr ''python'')],
          [(''title'', PStr ''Ops''), (''url'', PStr ''u2''), (''salary'', PInt 2000)]]))),
         readable = True, writable = True\<rparr> = Inl (KeyError ''description'')
   \<and> get_vacancies ''description'' (PStr ''python'')
       \<lparr>content = Some (Json (PList (map PDict
         [[(''title'', PStr ''Eng''), (''url'', PStr ''u1''), (''salary'', PInt 1000),
           (''description'', PStr ''python'')],
          [(''title'', PStr ''Ops''), (''url'', PStr ''u2''), (''salary'', PInt 2000)]]))),
         readable = True, writable = True\<rparr> = Inl (KeyError ''description'')"
  (is "readable ?m \<and> ?N \<and> ?D \<and> ?G")
proof -
  let ?ds = "[[(''title'', PStr ''Eng''), (''url'', PStr ''u1''), (''salary'', PInt 1000),
         (''description'', PStr ''python'')],
        [(''title'', PStr ''Ops''), (''url'', PStr ''u2''), (''salary'', PInt 2000)]]"
  have r: "readable ?m" by simp
  have c: "content ?m = Some (Json (PList (map PDict ?ds)))" by simp
  have n: ?N by simp
  then have ex: "\<exists>d \<in> set ?ds. map_of d ''description'' = None" by simp
  have ok: "\<forall>d \<in> set (takeWhile (\<lambda>d. map_of d ''description'' \<noteq> None) ?ds).
      matches ''description'' (PStr ''python'') d \<longrightarrow> Vacancy_kwargs (PDict d) \<noteq> Inl TypeError"
    by (simp add: Vacancy_kwargs_def)
  from missing_key_amended [OF r c ex, of "PStr ''python''"] ok
  have "?D \<and> ?G" by (simp add: Vacancy_kwargs_def)
  with r n show ?thesis by blast
qed

text \<open>
  C9, as stated: every storage operation fails when the medium cannot be read or its
  content cannot be parsed. \<open>add_vacancies\<close> never reads: where there is no file, and
  where the file holds text that is not JSON and may not be read, it succeeds and
  leaves the new records.
\<close>

theorem storage_unavailable_counterexample:
  "read_json \<lparr>content = None, readable = True, writable = True\<rparr> = Inl FileNotFoundError
   \<and> add_vacancies [Vacancy_init (PStr ''Eng'') (PStr ''u1'') (PInt 1000) (PStr ''python'')]
       \<lparr>content = None, readable = True, writable = True\<rparr>
     = Inr \<lparr>content = Some (Json (PList [Vacancy_dict
           (Vacancy_init (PStr ''Eng'') (PStr ''u1'') (PInt 1000) (PStr ''python''))])),
         readable = True, writable = True\<rparr>
   \<and> read_json \<lparr>content = Some Malformed, readable = False, writable = True\<rparr>
     = Inl PermissionError
   \<and> add_vacancies [Vacancy_init (PStr ''Eng'') (PStr ''u1'') (PInt 1000) (PStr ''python'')]
       \<lparr>content = Some Malformed, readable = False, writable = True\<rparr>
     = Inr \<lparr>content = Some (Json (PList [Vacancy_dict
           (Vacancy_init (PStr ''Eng'') (PStr ''u1'') (PInt 1000) (PStr ''python''))])),
         readable = False, writable = True\<rparr>"
  by (simp add: read_json_def add_vacancies_def write_json_def)

text \<open>
  C9, amended. \<open>get_vacancies\<close> and \<open>delete_vacancies\<close> raise \<open>FileNotFoundError\<close> when
  there is no file, \<open>PermissionError\<close> when the file may not be read, and
  \<open>JSONDecodeError\<close> when its text is not JSON. \<open>add_vacancies\<close> raises
  \<open>PermissionError\<close> when the file may not be written and succeeds otherwise, whatever
  the file held and whether or not it could be read; \<open>delete_vacancies\<close> raises
  \<open>PermissionError\<close> when it has read a list of records that all have the key and the
  file may not be written. \<open>get_vacancies\<close> on a readable list of records that all
  have the key, none with the given value, returns the empty list.
\<close>

theorem storage_errors_amended:
  "get_vacancies k x \<lparr>content = None, readable = r, writable = w\<rparr> = Inl FileNotFoundError
   \<and> delete_vacancies k x \<lparr>content = None, readable = r, writable = w\<rparr>
       = Inl FileNotFoundError
   \<and> get_vacancies k x \<lparr>content = Some doc, readable = False, writable = w\<rparr>
       = Inl PermissionError
   \<and> delete_vacancies k x \<lparr>content = Some doc, readable = False, writable = w\<rparr>
       = Inl PermissionError
   \<and> get_vacancies k x \<lparr>content = Some Malformed, readable = True, writable = w\<rparr>
       = Inl JSONDecodeError
   \<and> delete_vacancies k x \<lparr>content = Some Malformed, readable = True, writable = w\<rparr>
       = Inl JSONDecodeError
   \<and> add_vacancies vs \<lparr>content = c, readable = r, writable = False\<rparr> = Inl PermissionError
   \<and> add_vacancies vs \<lparr>content = c, readable = r, writable = True\<rparr>
       = Inr \<lparr>content = Some (Json (PList (map Vacancy_dict vs))), readable = r,
             writable = True\<rparr>
   \<and> ((\<forall>d \<in> set ds. map_of d k \<noteq> None) \<longrightarrow>
        delete_vacancies k x
          \<lparr>content = Some (Json (PList (map PDict ds))), readable = True, writable = False\<rparr>
        = Inl PermissionError)
   \<and> ((\<forall>d \<in> set ds. map_of d k \<noteq> None \<and> \<not> matches k x d) \<longrightarrow>
        get_vacancies k x
          \<lparr>content = Some (Json (PList (map PDict ds))), readable = True, writable = w\<rparr>
        = Inr [])"
proof -
  have missing: "get_vacancies k x \<lparr>content = None, readable = r, writable = w\<rparr>
        = Inl FileNotFoundError"
      "delete_vacancies k x \<lparr>content = None, readable = r, writable = w\<rparr>
        = Inl FileNotFoundError"
    by (simp_all add: get_vacancies_def delete_vacancies_def read_json_def)
  have unreadable: "get_vacancies k x \<lparr>content = Some doc, readable = False, writable = w\<rparr>
        = Inl PermissionError"
      "delete_vacancies k x \<lparr>content = Some doc, readable = False, writable = w\<rparr>
        = Inl PermissionError"
    by (simp_all add: get_vacancies_def delete_vacancies_def read_json_def)
  have malformed: "get_vacancies k x \<lparr>content = Some Malformed, readable = True, writable = w\<rparr>
        = Inl JSONDecodeError"
      "delete_vacancies k x \<lparr>content = Some Malformed, readable = True, writable = w\<rparr>
        = Inl JSONDecodeError"
    by (simp_all add: get_vacancies_def delete_vacancies_def read_json_def json_load_def)
  have add: "add_vacancies vs \<lparr>content = c, readable = r, writable = False\<rparr>
        = Inl PermissionError"
      "add_vacancies vs \<lparr>content = c, readable = r, writable = True\<rparr>
        = Inr \<lparr>content = Some (Json (PList (map Vacancy_dict vs))), readable = r,
              writable = True\<rparr>"
    by (simp_all add: add_vacancies_def write_json_def)
  have del: "delete_vacancies k x
        \<lparr>content = Some (Json (PList (map PDict ds))), readable = True, writable = False\<rparr>
      = Inl PermissionError"
    if "\<forall>d \<in> set ds. map_of d k \<noteq> None"
    using that
    by (simp add: delete_vacancies_def read_json_def json_load_def delete_loop_records
        write_json_def)
  have none: "get_vacancies k x
        \<lparr>content = Some (Json (PList (map PDict ds))), readable = True, writable = w\<rparr>
      = Inr []"
    if "\<forall>d \<in> set ds. map_of d k \<noteq> None \<and> \<not> matches k x d"
    using that
    by (simp add: get_vacancies_def read_json_def json_load_def get_loop_no_match)
  from missing unreadable malformed add del none show ?thesis by blast
qed

theorem storage_errors_amended_witness:
  "get_vacancies ''description'' (PStr ''java'')
       \<lparr>content = None, readable = True, writable = True\<rparr> = Inl FileNotFoundError
   \<and> delete_vacancies ''description'' (PStr ''java'')
       \<lparr>content = Some Malformed, readable = True, writable = True\<rparr> = Inl JSONDecodeError
   \<and> add_vacancies [Vacancy_init (PStr ''Eng'') (PStr ''u1'') (PInt 1000) (PStr ''python'')]
       \<lparr>content = None, readable = True, writable = False\<rparr> = Inl PermissionError
   \<and> delete_vacancies ''description'' (PStr ''java'')
       \<lparr>content = Some (Json (PList (map PDict
          [[(''title'', PStr ''Eng''), (''url'', PStr ''u1''), (''salary'', PInt 1000),
            (''description'', PStr ''python'')]]))), readable = True, writable = False\<rparr>
       = Inl PermissionError
   \<and> get_vacancies ''description'' (PStr ''java'')
       \<lparr>content = Some (Json (PList (map PDict
          [[(''title'', PStr ''Eng''), (''url'', PStr ''u1''), (''salary'', PInt 1000),
            (''description'', PStr ''python'')]]))), readable = True, writable = True\<rparr>
       = Inr []"
  using storage_errors_amended [where k = "''description''" and x = "PStr ''java''"
      and r = True and w = True and c = None and doc = Malformed
      and vs = "[Vacancy_init (PStr ''Eng'') (PStr ''u1'') (PInt 1000) (PStr ''python'')]"
      and ds = "[[(''title'', PStr ''Eng''), (''url'', PStr ''u1''), (''salary'', PInt 1000),
            (''description'', PStr ''python'')]]"]
  by (simp add: matches_def)

end
